theory Spec2Isabelle
  imports
    Main
    "HOL-Library.Char_ord"
    "HOL-Library.List_Lexorder"
    "HOL-Library.Product_Lexorder"
    "HOL-Library.Multiset"
    "HOL-Library.AList"
begin

section \<open>Values exchanged with the libraries\<close>

text \<open>
  The handlers of \<^verbatim>\<open>server.py\<close> receive decoded JSON and hand text to SQLite.
  A decoded JSON value is a Python object; a \<^verbatim>\<open>dict\<close> keeps its insertion order and has
  one entry per key, so it is an association list here. Floating-point numbers are left
  out. Strings are lists of characters with code points below 256, where the regular
  expression class \<^verbatim>\<open>\d\<close> of Python is exactly the ten ASCII digits.
\<close>

datatype json =
    JNull
  | JBool bool
  | JInt int
  | JStr string
  | JArr "json list"
  | JObj "(string \<times> json) list"

text \<open>The exceptions the handlers can meet, each carrying the text of \<^verbatim>\<open>str(e)\<close>.\<close>

datatype exn =
    JSONDecodeError string
  | AttributeError string
  | ValidationError string
  | OtherError string

fun str_exn :: "exn \<Rightarrow> string" where
  "str_exn (JSONDecodeError m) = m"
| "str_exn (AttributeError m) = m"
| "str_exn (ValidationError m) = m"
| "str_exn (OtherError m) = m"

text \<open>
  What the imported libraries do is a parameter of the model:
  \<^item> \<open>loads\<close>, \<open>dumps\<close>: \<^verbatim>\<open>json.loads\<close> and \<^verbatim>\<open>json.dumps\<close>;
  \<^item> \<open>date_required\<close>: whether the payload validator demands the key \<^verbatim>\<open>date\<close> of a
    field declared \<^verbatim>\<open>Optional[str]\<close> without a default (pydantic 2), or gives it the
    default \<^verbatim>\<open>None\<close> (pydantic 1);
  \<^item> \<open>lax_str\<close>, \<open>lax_dict\<close>: the validator's coercion of a value of another type to
    \<^verbatim>\<open>str\<close> or \<^verbatim>\<open>dict\<close> (\<open>None\<close> where it rejects the value);
  \<^item> \<open>validation_text\<close>: the text of the validator's error for the offending fields;
  \<^item> \<open>pad_year\<close>: whether \<^verbatim>\<open>strftime\<close> pads \<^verbatim>\<open>%Y\<close> to four digits for years below
    1000 (it does not with glibc before Python 3.13).
\<close>

record lib =
  loads :: "string \<Rightarrow> exn + json"
  dumps :: "json \<Rightarrow> string"
  date_required :: bool
  lax_str :: "json \<Rightarrow> string option"
  lax_dict :: "json \<Rightarrow> (string \<times> json) list option"
  validation_text :: "string list \<Rightarrow> string"
  pad_year :: bool


section \<open>Dates: \<^verbatim>\<open>datetime.strptime\<close> and \<^verbatim>\<open>strftime\<close>\<close>

text \<open>A calendar date is (year, month, day); the product order is the chronological one.\<close>

type_synonym pydate = "nat \<times> nat \<times> nat"

definition digit_val :: "char \<Rightarrow> nat option" where
  "digit_val c =
     (if CHR ''0'' \<le> c \<and> c \<le> CHR ''9'' then Some (of_char c - 48) else None)"

definition digit_char :: "nat \<Rightarrow> char" where
  "digit_char n = char_of (48 + n)"

text \<open>
  The directives of \<^verbatim>\<open>_strptime.py\<close>:
  \<^verbatim>\<open>%d\<close> is \<^verbatim>\<open>3[0-1]|[1-2]\d|0[1-9]|[1-9]| [1-9]\<close>,
  \<^verbatim>\<open>%m\<close> is \<^verbatim>\<open>1[0-2]|0[1-9]|[1-9]\<close>, \<^verbatim>\<open>%Y\<close> is \<^verbatim>\<open>\d\d\d\d\<close>.
  Each function takes the whole text of its field and returns \<^verbatim>\<open>int\<close> of it.
\<close>

definition re_d :: "string \<Rightarrow> nat option" where
  "re_d t =
     (case t of
        [a] \<Rightarrow> (case digit_val a of
                  Some x \<Rightarrow> if 1 \<le> x then Some x else None
                | None \<Rightarrow> None)
      | [a, b] \<Rightarrow>
          (case digit_val b of
             None \<Rightarrow> None
           | Some y \<Rightarrow>
               (case digit_val a of
                  Some x \<Rightarrow>
                    if (x = 3 \<and> y \<le> 1) \<or> (1 \<le> x \<and> x \<le> 2) \<or> (x = 0 \<and> 1 \<le> y)
                    then Some (10 * x + y) else None
                | None \<Rightarrow> if a = CHR '' '' \<and> 1 \<le> y then Some y else None))
      | _ \<Rightarrow> None)"

definition re_m :: "string \<Rightarrow> nat option" where
  "re_m t =
     (case t of
        [a] \<Rightarrow> (case digit_val a of
                  Some x \<Rightarrow> if 1 \<le> x then Some x else None
                | None \<Rightarrow> None)
      | [a, b] \<Rightarrow>
          (case (digit_val a, digit_val b) of
             (Some x, Some y) \<Rightarrow>
               if (x = 1 \<and> y \<le> 2) \<or> (x = 0 \<and> 1 \<le> y) then Some (10 * x + y) else None
           | _ \<Rightarrow> None)
      | _ \<Rightarrow> None)"

definition re_Y :: "string \<Rightarrow> nat option" where
  "re_Y t =
     (case t of
        [a, b, c, d] \<Rightarrow>
          (case (digit_val a, digit_val b, digit_val c, digit_val d) of
             (Some w, Some x, Some y, Some z) \<Rightarrow> Some (1000 * w + 100 * x + 10 * y + z)
           | _ \<Rightarrow> None)
      | _ \<Rightarrow> None)"

definition is_leap :: "nat \<Rightarrow> bool" where
  "is_leap y \<longleftrightarrow> y mod 4 = 0 \<and> (0 < y mod 100 \<or> y mod 400 = 0)"

definition days_in_month :: "nat \<Rightarrow> nat \<Rightarrow> nat" where
  "days_in_month y m =
     (if m = 2 then (if is_leap y then 29 else 28)
      else if m = 4 \<or> m = 6 \<or> m = 9 \<or> m = 11 then 30 else 31)"

text \<open>
  The constructor \<^verbatim>\<open>datetime_date(year, month, day)\<close> that \<^verbatim>\<open>_strptime\<close> calls on the
  three numbers: it raises \<^verbatim>\<open>ValueError\<close> outside the calendar (year 0, 31 February).
\<close>

definition datetime_date :: "nat \<Rightarrow> nat \<Rightarrow> nat \<Rightarrow> pydate option" where
  "datetime_date y m d =
     (if 1 \<le> y \<and> y \<le> 9999 \<and> 1 \<le> m \<and> m \<le> 12 \<and> 1 \<le> d \<and> d \<le> days_in_month y m
      then Some (y, m, d) else None)"

text \<open>
  The text up to a separator and the text after it. No field of the two formats can
  hold the separator, so the match of the regular expression, if there is one, splits
  the string at the first separators; \<^verbatim>\<open>unconverted data remains\<close> is the case where the
  last field is longer than its directive.
\<close>

fun split_sep :: "char \<Rightarrow> string \<Rightarrow> (string \<times> string) option" where
  "split_sep c [] = None"
| "split_sep c (x # xs) =
     (if x = c then Some ([], xs)
      else map_option (\<lambda>(a, b). (x # a, b)) (split_sep c xs))"

text \<open>\<^verbatim>\<open>datetime.strptime(s, "%d/%m/%Y")\<close>; \<open>None\<close> is the \<^verbatim>\<open>ValueError\<close>.\<close>

definition strptime_dmy :: "string \<Rightarrow> pydate option" where
  "strptime_dmy s =
     (case split_sep CHR ''/'' s of
        None \<Rightarrow> None
      | Some (dd, r) \<Rightarrow>
          (case split_sep CHR ''/'' r of
             None \<Rightarrow> None
           | Some (mm, yy) \<Rightarrow>
               (case (re_d dd, re_m mm, re_Y yy) of
                  (Some d, Some m, Some y) \<Rightarrow> datetime_date y m d
                | _ \<Rightarrow> None)))"

text \<open>\<^verbatim>\<open>datetime.strptime(s, "%Y-%m-%d")\<close>.\<close>

definition strptime_ymd :: "string \<Rightarrow> pydate option" where
  "strptime_ymd s =
     (case split_sep CHR ''-'' s of
        None \<Rightarrow> None
      | Some (yy, r) \<Rightarrow>
          (case split_sep CHR ''-'' r of
             None \<Rightarrow> None
           | Some (mm, dd) \<Rightarrow>
               (case (re_Y yy, re_m mm, re_d dd) of
                  (Some y, Some m, Some d) \<Rightarrow> datetime_date y m d
                | _ \<Rightarrow> None)))"

definition pad2 :: "nat \<Rightarrow> string" where
  "pad2 n = [digit_char (n div 10), digit_char (n mod 10)]"

definition pad4 :: "nat \<Rightarrow> string" where
  "pad4 n = [digit_char (n div 1000), digit_char (n div 100 mod 10),
             digit_char (n div 10 mod 10), digit_char (n mod 10)]"

text \<open>The decimal numeral of a year below 10000, without padding.\<close>

definition dec :: "nat \<Rightarrow> string" where
  "dec n =
     (if n < 10 then [digit_char n]
      else if n < 100 then pad2 n
      else if n < 1000 then digit_char (n div 100) # pad2 (n mod 100)
      else pad4 n)"

definition fmt_Y :: "lib \<Rightarrow> nat \<Rightarrow> string" where
  "fmt_Y L y = (if pad_year L then pad4 y else dec y)"

text \<open>\<^verbatim>\<open>.strftime("%Y-%m-%d")\<close> and \<^verbatim>\<open>.strftime("%d/%m/%Y")\<close>.\<close>

fun strftime_ymd :: "lib \<Rightarrow> pydate \<Rightarrow> string" where
  "strftime_ymd L (y, m, d) = fmt_Y L y @ ''-'' @ pad2 m @ ''-'' @ pad2 d"

fun strftime_dmy :: "lib \<Rightarrow> pydate \<Rightarrow> string" where
  "strftime_dmy L (y, m, d) = pad2 d @ ''/'' @ pad2 m @ ''/'' @ fmt_Y L y"


section \<open>The payload model \<^verbatim>\<open>Player\<close>\<close>

record Player =
  name :: string
  age :: string
  TSI :: string
  salary :: string
  specialties :: string
  form :: string
  fitness :: string
  skills :: "(string \<times> json) list"
  date :: "string option"

text \<open>One field of \<^verbatim>\<open>Player(**player_data)\<close>; \<open>None\<close> is a field the validator reports.\<close>

definition str_field :: "lib \<Rightarrow> (string \<times> json) list \<Rightarrow> string \<Rightarrow> string option" where
  "str_field L d k =
     (case map_of d k of
        None \<Rightarrow> None
      | Some (JStr s) \<Rightarrow> Some s
      | Some v \<Rightarrow> lax_str L v)"

definition dict_field ::
  "lib \<Rightarrow> (string \<times> json) list \<Rightarrow> string \<Rightarrow> (string \<times> json) list option" where
  "dict_field L d k =
     (case map_of d k of
        None \<Rightarrow> None
      | Some (JObj kv) \<Rightarrow> Some kv
      | Some v \<Rightarrow> lax_dict L v)"

definition opt_str_field ::
  "lib \<Rightarrow> (string \<times> json) list \<Rightarrow> string \<Rightarrow> string option option" where
  "opt_str_field L d k =
     (case map_of d k of
        None \<Rightarrow> if date_required L then None else Some None
      | Some JNull \<Rightarrow> Some None
      | Some (JStr s) \<Rightarrow> Some (Some s)
      | Some v \<Rightarrow> map_option Some (lax_str L v))"

definition bad_fields :: "lib \<Rightarrow> (string \<times> json) list \<Rightarrow> string list" where
  "bad_fields L d =
     filter (\<lambda>k. str_field L d k = None)
       [''name'', ''age'', ''TSI'', ''salary'', ''specialties'', ''form'', ''fitness'']
     @ (if dict_field L d ''skills'' = None then [''skills''] else [])
     @ (if opt_str_field L d ''date'' = None then [''date''] else [])"

definition validate :: "lib \<Rightarrow> (string \<times> json) list \<Rightarrow> exn + Player" where
  "validate L d =
     (case (str_field L d ''name'', str_field L d ''age'', str_field L d ''TSI'',
            str_field L d ''salary'', str_field L d ''specialties'', str_field L d ''form'',
            str_field L d ''fitness'', dict_field L d ''skills'',
            opt_str_field L d ''date'') of
        (Some n, Some a, Some t, Some sa, Some sp, Some fo, Some fi, Some sk, Some da) \<Rightarrow>
          Inr \<lparr>name = n, age = a, TSI = t, salary = sa, specialties = sp, form = fo,
               fitness = fi, skills = sk, date = da\<rparr>
      | _ \<Rightarrow> Inl (ValidationError (validation_text L (bad_fields L d))))"


section \<open>The store\<close>

record player_row =
  p_id :: string
  p_name :: string
  p_specialties :: string

record stats_row =
  s_player_id :: string
  s_TSI :: string
  s_salary :: string
  s_fitness :: string
  s_form :: string
  s_skills :: string
  s_date :: string
  s_age :: string

text \<open>
  The file \<^verbatim>\<open>players.db\<close> with its two tables, \<open>player_stats\<close> in the order of
  insertion, and the number of connections opened and not closed.
\<close>

record state =
  players :: "player_row list"
  player_stats :: "stats_row list"
  open_conns :: nat

definition init_db :: state where
  "init_db = \<lparr>players = [], player_stats = [], open_conns = 0\<rparr>"

definition connect :: "state \<Rightarrow> state" where
  "connect s = s\<lparr>open_conns := Suc (open_conns s)\<rparr>"

definition close :: "state \<Rightarrow> state" where
  "close s = s\<lparr>open_conns := open_conns s - 1\<rparr>"

text \<open>
  \<^verbatim>\<open>INSERT INTO players ... ON CONFLICT(id) DO UPDATE SET name = excluded.name,
  specialties = excluded.specialties\<close>.
\<close>

fun upsert :: "player_row \<Rightarrow> player_row list \<Rightarrow> player_row list" where
  "upsert r [] = [r]"
| "upsert r (x # xs) =
     (if p_id x = p_id r
      then x\<lparr>p_name := p_name r, p_specialties := p_specialties r\<rparr> # xs
      else x # upsert r xs)"


section \<open>Save: \<^verbatim>\<open>save_player\<close>\<close>

datatype response = Message string | Error string

definition type_name :: "json \<Rightarrow> string" where
  "type_name v =
     (case v of
        JNull \<Rightarrow> ''NoneType''
      | JBool _ \<Rightarrow> ''bool''
      | JInt _ \<Rightarrow> ''int''
      | JStr _ \<Rightarrow> ''str''
      | JArr _ \<Rightarrow> ''list''
      | JObj _ \<Rightarrow> ''dict'')"

definition no_attribute_get :: "json \<Rightarrow> exn" where
  "no_attribute_get v =
     AttributeError ([CHR 0x27] @ type_name v @ [CHR 0x27] @ '' object has no attribute ''
                     @ [CHR 0x27] @ ''get'' @ [CHR 0x27])"

text \<open>
  The body of \<^verbatim>\<open>save_player\<close> up to \<^verbatim>\<open>player = Player(**player_data)\<close>: the request's
  \<^verbatim>\<open>json()\<close> (its exception or its value), the decoding of a \<^verbatim>\<open>skills\<close> string, the
  validation. \<open>Inl\<close> is the object the handler returns from \<^verbatim>\<open>return {"error": ...}\<close> or
  from \<^verbatim>\<open>except Exception\<close>.
\<close>

definition prepare :: "lib \<Rightarrow> exn + json \<Rightarrow> response + Player" where
  "prepare L req =
     (case req of
        Inl e \<Rightarrow> Inl (Error (str_exn e))
      | Inr (JObj player_data) \<Rightarrow>
          (case map_of player_data ''skills'' of
             Some (JStr text) \<Rightarrow>
               (case loads L text of
                  Inl (JSONDecodeError e) \<Rightarrow> Inl (Error (''Invalid JSON in skills: '' @ e))
                | Inl e \<Rightarrow> Inl (Error (str_exn e))
                | Inr v \<Rightarrow>
                    (case validate L (AList.update ''skills'' v player_data) of
                       Inl e \<Rightarrow> Inl (Error (str_exn e))
                     | Inr player \<Rightarrow> Inr player))
           | _ \<Rightarrow>
               (case validate L player_data of
                  Inl e \<Rightarrow> Inl (Error (str_exn e))
                | Inr player \<Rightarrow> Inr player))
      | Inr v \<Rightarrow> Inl (Error (str_exn (no_attribute_get v))))"

text \<open>The conversion of the date, with the bare \<^verbatim>\<open>except\<close> that takes today's date.\<close>

definition iso_date_of :: "lib \<Rightarrow> pydate \<Rightarrow> string option \<Rightarrow> string" where
  "iso_date_of L now ds =
     (case ds of
        None \<Rightarrow> strftime_ymd L now
      | Some t \<Rightarrow>
          (case strptime_dmy t of
             Some d \<Rightarrow> strftime_ymd L d
           | None \<Rightarrow> strftime_ymd L now))"

definition saved_message :: "string \<Rightarrow> string" where
  "saved_message n =
     [CHR 0xE2, CHR 0x9C, CHR 0x85] @ '' Player '' @ n @ '' saved successfully''"

definition stats_of :: "lib \<Rightarrow> string \<Rightarrow> Player \<Rightarrow> string \<Rightarrow> stats_row" where
  "stats_of L player_id player iso_date =
     \<lparr>s_player_id = player_id, s_TSI = TSI player, s_salary = salary player,
      s_fitness = fitness player, s_form = form player,
      s_skills = dumps L (JObj (skills player)), s_date = iso_date, s_age = age player\<rparr>"

text \<open>
  \<open>now\<close> is the date of \<^verbatim>\<open>datetime.now()\<close>. Before \<^verbatim>\<open>sqlite3.connect\<close> the variable
  \<^verbatim>\<open>conn\<close> is \<^verbatim>\<open>None\<close> and the \<^verbatim>\<open>finally\<close> block closes nothing; after it the two
  statements run, \<^verbatim>\<open>commit\<close> keeps them and \<^verbatim>\<open>finally\<close> closes the connection.
\<close>

definition save_player ::
  "lib \<Rightarrow> pydate \<Rightarrow> string \<Rightarrow> exn + json \<Rightarrow> state \<Rightarrow> response \<times> state" where
  "save_player L now player_id req s =
     (case prepare L req of
        Inl resp \<Rightarrow> (resp, s)
      | Inr player \<Rightarrow>
          let iso_date = iso_date_of L now (date player);
              c0 = connect s;
              c1 = c0\<lparr>players :=
                         upsert \<lparr>p_id = player_id, p_name = name player,
                                 p_specialties = specialties player\<rparr> (players c0)\<rparr>;
              c2 = c1\<lparr>player_stats :=
                         player_stats c1 @ [stats_of L player_id player iso_date]\<rparr>
          in (Message (saved_message (name player)), close c2))"


section \<open>List: \<^verbatim>\<open>get_all_players\<close>\<close>

text \<open>A row of the query; \<open>r_skills\<close> is text as fetched and a decoded value as returned.\<close>

record 'a row =
  r_id :: string
  r_name :: string
  r_specialties :: string
  r_age :: string
  r_TSI :: string
  r_salary :: string
  r_fitness :: string
  r_form :: string
  r_skills :: 'a
  r_date :: string

definition joined :: "stats_row \<Rightarrow> player_row \<Rightarrow> string row" where
  "joined st p =
     \<lparr>r_id = p_id p, r_name = p_name p, r_specialties = p_specialties p,
      r_age = s_age st, r_TSI = s_TSI st, r_salary = s_salary st,
      r_fitness = s_fitness st, r_form = s_form st, r_skills = s_skills st,
      r_date = s_date st\<rparr>"

text \<open>\<^verbatim>\<open>FROM player_stats s JOIN players p ON p.id = s.player_id\<close>.\<close>

definition join_rows :: "state \<Rightarrow> string row list" where
  "join_rows s =
     concat (map (\<lambda>st. map (joined st) (filter (\<lambda>p. p_id p = s_player_id st) (players s)))
                 (player_stats s))"

text \<open>
  \<^verbatim>\<open>ORDER BY s.date DESC\<close>: the dates are compared as text. Rows with equal dates are
  kept in the order of the table, which SQLite does not promise.
\<close>

fun insert_desc :: "'a row \<Rightarrow> 'a row list \<Rightarrow> 'a row list" where
  "insert_desc r [] = [r]"
| "insert_desc r (x # xs) =
     (if r_date x \<le> r_date r then r # x # xs else x # insert_desc r xs)"

definition order_by_date_desc :: "'a row list \<Rightarrow> 'a row list" where
  "order_by_date_desc rows = foldr insert_desc rows []"

datatype list_response = Rows "json row list" | ListError string

text \<open>One turn of the loop over the fetched rows.\<close>

definition decode_row :: "lib \<Rightarrow> string row \<Rightarrow> exn + json row" where
  "decode_row L r =
     (let d = (case strptime_ymd (r_date r) of
                 Some dt \<Rightarrow> strftime_dmy L dt
               | None \<Rightarrow> r_date r)
      in case loads L (r_skills r) of
           Inl e \<Rightarrow> Inl e
         | Inr v \<Rightarrow>
             Inr \<lparr>r_id = r_id r, r_name = r_name r, r_specialties = r_specialties r,
                  r_age = r_age r, r_TSI = r_TSI r, r_salary = r_salary r,
                  r_fitness = r_fitness r, r_form = r_form r, r_skills = v, r_date = d\<rparr>)"

fun decode_rows :: "lib \<Rightarrow> string row list \<Rightarrow> exn + json row list" where
  "decode_rows L [] = Inr []"
| "decode_rows L (r # rs) =
     (case decode_row L r of
        Inl e \<Rightarrow> Inl e
      | Inr x \<Rightarrow> (case decode_rows L rs of Inl e \<Rightarrow> Inl e | Inr xs \<Rightarrow> Inr (x # xs)))"

text \<open>
  \<^verbatim>\<open>if player_id:\<close> and \<^verbatim>\<open>if date:\<close> test the truth value of an \<^verbatim>\<open>Optional[str]\<close>:
  \<^verbatim>\<open>None\<close> and the empty string are false.
\<close>

definition id_filter :: "string option \<Rightarrow> (string row \<Rightarrow> bool) list" where
  "id_filter player_id =
     (case player_id of
        None \<Rightarrow> []
      | Some p \<Rightarrow> if p \<noteq> [] then [\<lambda>r. r_id r = p] else [])"

text \<open>The date filter; \<open>None\<close> is the \<^verbatim>\<open>except\<close> branch of the handler.\<close>

definition date_filter :: "lib \<Rightarrow> string option \<Rightarrow> (string row \<Rightarrow> bool) list option" where
  "date_filter L dt =
     (case dt of
        None \<Rightarrow> Some []
      | Some t \<Rightarrow>
          if t \<noteq> [] then
            (case strptime_dmy t of
               Some d \<Rightarrow> Some [\<lambda>r. r_date r = strftime_ymd L d]
             | None \<Rightarrow> None)
          else Some [])"

definition fetchall :: "(string row \<Rightarrow> bool) list \<Rightarrow> state \<Rightarrow> string row list" where
  "fetchall filters s =
     order_by_date_desc (filter (\<lambda>r. list_all (\<lambda>f. f r) filters) (join_rows s))"

text \<open>
  The handler returns the list of rows or the error object (\<open>Inr\<close>), or an exception
  of \<^verbatim>\<open>json.loads\<close> leaves it (\<open>Inl\<close>). \<^verbatim>\<open>conn.close()\<close> is its last statement but one.
\<close>

definition get_all_players ::
  "lib \<Rightarrow> string option \<Rightarrow> string option \<Rightarrow> state \<Rightarrow> (exn + list_response) \<times> state" where
  "get_all_players L player_id dt s =
     (let c = connect s in
      case date_filter L dt of
        None \<Rightarrow> (Inr (ListError ''Invalid date format. Use DD/MM/YYYY.''), c)
      | Some fd \<Rightarrow>
          (case decode_rows L (fetchall (id_filter player_id @ fd) c) of
             Inl e \<Rightarrow> (Inl e, c)
           | Inr result \<Rightarrow> (Inr (Rows result), close c)))"

section \<open>An instance of the library parameters\<close>

text \<open>
  A codec for JSON text without floating-point numbers, written the way \<^verbatim>\<open>json.dumps\<close>
  writes it (\<^verbatim>\<open>", "\<close> and \<^verbatim>\<open>": "\<close> as separators, non-ASCII characters escaped) and
  read back by a recursive-descent parser. It is used where a statement needs a
  concrete library; the statements themselves hold for every \<open>lib\<close>.
\<close>

fun dec_nat :: "nat \<Rightarrow> string" where
  "dec_nat n = (if n < 10 then [digit_char n] else dec_nat (n div 10) @ [digit_char (n mod 10)])"

declare dec_nat.simps [simp del]

definition hex_char :: "nat \<Rightarrow> char" where
  "hex_char n = (if n < 10 then char_of (48 + n) else char_of (87 + n))"

definition escape_char :: "char \<Rightarrow> string" where
  "escape_char c =
     (if c = CHR 0x22 then [CHR 0x5C, CHR 0x22]
      else if c = CHR 0x5C then [CHR 0x5C, CHR 0x5C]
      else if c = CHR 0x0A then [CHR 0x5C, CHR ''n'']
      else if c = CHR 0x0D then [CHR 0x5C, CHR ''r'']
      else if c = CHR 0x09 then [CHR 0x5C, CHR ''t'']
      else if c = CHR 0x08 then [CHR 0x5C, CHR ''b'']
      else if c = CHR 0x0C then [CHR 0x5C, CHR ''f'']
      else if CHR '' '' \<le> c \<and> c \<le> CHR ''~'' then [c]
      else [CHR 0x5C, CHR ''u'', CHR ''0'', CHR ''0'',
            hex_char (of_char c div 16), hex_char (of_char c mod 16)])"

definition py_quote :: "string \<Rightarrow> string" where
  "py_quote s = [CHR 0x22] @ concat (map escape_char s) @ [CHR 0x22]"

fun join :: "string \<Rightarrow> string list \<Rightarrow> string" where
  "join sep [] = []"
| "join sep [x] = x"
| "join sep (x # y # ys) = x @ sep @ join sep (y # ys)"

fun py_dumps :: "json \<Rightarrow> string" where
  "py_dumps JNull = ''null''"
| "py_dumps (JBool b) = (if b then ''true'' else ''false'')"
| "py_dumps (JInt i) = (if i < 0 then ''-'' @ dec_nat (nat (- i)) else dec_nat (nat i))"
| "py_dumps (JStr s) = py_quote s"
| "py_dumps (JArr vs) = ''['' @ join '', '' (map py_dumps vs) @ '']''"
| "py_dumps (JObj kvs) =
     ''{'' @ join '', '' (map (\<lambda>(k, v). py_quote k @ '': '' @ py_dumps v) kvs) @ ''}''"

fun skip_ws :: "string \<Rightarrow> string" where
  "skip_ws [] = []"
| "skip_ws (c # cs) =
     (if c = CHR '' '' \<or> c = CHR 0x09 \<or> c = CHR 0x0A \<or> c = CHR 0x0D then skip_ws cs
      else c # cs)"

definition hex_val :: "char \<Rightarrow> nat option" where
  "hex_val c =
     (if CHR ''0'' \<le> c \<and> c \<le> CHR ''9'' then Some (of_char c - 48)
      else if CHR ''a'' \<le> c \<and> c \<le> CHR ''f'' then Some (of_char c - 87)
      else if CHR ''A'' \<le> c \<and> c \<le> CHR ''F'' then Some (of_char c - 55)
      else None)"

fun unescape :: "string \<Rightarrow> (char \<times> string) option" where
  "unescape (e # cs) =
     (if e = CHR 0x22 \<or> e = CHR 0x5C \<or> e = CHR ''/'' then Some (e, cs)
      else if e = CHR ''n'' then Some (CHR 0x0A, cs)
      else if e = CHR ''r'' then Some (CHR 0x0D, cs)
      else if e = CHR ''t'' then Some (CHR 0x09, cs)
      else if e = CHR ''b'' then Some (CHR 0x08, cs)
      else if e = CHR ''f'' then Some (CHR 0x0C, cs)
      else if e = CHR ''u'' then
        (case cs of
           a # b # c # d # rest \<Rightarrow>
             (case (hex_val a, hex_val b, hex_val c, hex_val d) of
                (Some 0, Some 0, Some y, Some z) \<Rightarrow> Some (char_of (16 * y + z), rest)
              | _ \<Rightarrow> None)
         | _ \<Rightarrow> None)
      else None)"
| "unescape [] = None"

fun scan_string :: "nat \<Rightarrow> string \<Rightarrow> (string \<times> string) option" where
  "scan_string 0 cs = None"
| "scan_string (Suc n) [] = None"
| "scan_string (Suc n) (c # cs) =
     (if c = CHR 0x22 then Some ([], cs)
      else if c = CHR 0x5C then
        (case unescape cs of
           None \<Rightarrow> None
         | Some (x, rest) \<Rightarrow> map_option (\<lambda>(t, r). (x # t, r)) (scan_string n rest))
      else if c < CHR '' '' then None
      else map_option (\<lambda>(t, r). (c # t, r)) (scan_string n cs))"

definition scan_int :: "string \<Rightarrow> (int \<times> string) option" where
  "scan_int cs =
     (let neg = (case cs of c # _ \<Rightarrow> c = CHR ''-'' | [] \<Rightarrow> False);
          body = (if neg then tl cs else cs);
          ds = takeWhile (\<lambda>c. digit_val c \<noteq> None) body;
          rest = dropWhile (\<lambda>c. digit_val c \<noteq> None) body;
          n = foldl (\<lambda>a c. 10 * a + (case digit_val c of Some k \<Rightarrow> k | None \<Rightarrow> 0)) 0 ds
      in if ds = [] \<or> (1 < length ds \<and> hd ds = CHR ''0'') then None
         else if (case rest of c # _ \<Rightarrow> c = CHR ''.'' \<or> c = CHR ''e'' \<or> c = CHR ''E'' | [] \<Rightarrow> False)
         then None
         else Some (if neg then - int n else int n, rest))"

fun scan_value :: "nat \<Rightarrow> string \<Rightarrow> (json \<times> string) option"
and scan_elems :: "nat \<Rightarrow> string \<Rightarrow> (json list \<times> string) option"
and scan_members :: "nat \<Rightarrow> string \<Rightarrow> ((string \<times> json) list \<times> string) option" where
  "scan_value 0 cs = None"
| "scan_value (Suc n) cs =
     (case cs of
        [] \<Rightarrow> None
      | c # r \<Rightarrow>
          if c = CHR 0x22 then map_option (\<lambda>(t, r'). (JStr t, r')) (scan_string (length r) r)
          else if c = CHR ''['' then
            (case skip_ws r of
               x # r' \<Rightarrow> if x = CHR '']'' then Some (JArr [], r')
                         else map_option (\<lambda>(vs, r''). (JArr vs, r'')) (scan_elems n (x # r'))
             | [] \<Rightarrow> None)
          else if c = CHR ''{'' then
            (case skip_ws r of
               x # r' \<Rightarrow> if x = CHR ''}'' then Some (JObj [], r')
                         else map_option
                                (\<lambda>(kvs, r''). (JObj (foldl (\<lambda>d (k, v). AList.update k v d) [] kvs), r''))
                                (scan_members n (x # r'))
             | [] \<Rightarrow> None)
          else if take 4 cs = ''null'' then Some (JNull, drop 4 cs)
          else if take 4 cs = ''true'' then Some (JBool True, drop 4 cs)
          else if take 5 cs = ''false'' then Some (JBool False, drop 5 cs)
          else map_option (\<lambda>(i, r'). (JInt i, r')) (scan_int cs))"
| "scan_elems 0 cs = None"
| "scan_elems (Suc n) cs =
     (case scan_value n cs of
        None \<Rightarrow> None
      | Some (v, r) \<Rightarrow>
          (case skip_ws r of
             x # r' \<Rightarrow>
               if x = CHR '']'' then Some ([v], r')
               else if x = CHR '','' then
                 map_option (\<lambda>(vs, r''). (v # vs, r'')) (scan_elems n (skip_ws r'))
               else None
           | [] \<Rightarrow> None))"
| "scan_members 0 cs = None"
| "scan_members (Suc n) cs =
     (case cs of
        q # r0 \<Rightarrow>
          if q = CHR 0x22 then
            (case scan_string (length r0) r0 of
               None \<Rightarrow> None
             | Some (k, r1) \<Rightarrow>
                 (case skip_ws r1 of
                    col # r2 \<Rightarrow>
                      if col = CHR '':'' then
                        (case scan_value n (skip_ws r2) of
                           None \<Rightarrow> None
                         | Some (v, r3) \<Rightarrow>
                             (case skip_ws r3 of
                                x # r4 \<Rightarrow>
                                  if x = CHR ''}'' then Some ([(k, v)], r4)
                                  else if x = CHR '','' then
                                    map_option (\<lambda>(kvs, r5). ((k, v) # kvs, r5))
                                      (scan_members n (skip_ws r4))
                                  else None
                              | [] \<Rightarrow> None))
                      else None
                  | [] \<Rightarrow> None))
          else None
      | [] \<Rightarrow> None)"

definition py_loads :: "string \<Rightarrow> exn + json" where
  "py_loads s =
     (case scan_value (Suc (2 * length s)) (skip_ws s) of
        None \<Rightarrow> Inl (JSONDecodeError ''Expecting value'')
      | Some (v, r) \<Rightarrow> if skip_ws r = [] then Inr v else Inl (JSONDecodeError ''Extra data''))"

text \<open>
  A validator without coercion that demands the key \<^verbatim>\<open>date\<close> (as pydantic 2 does), and
  the same validator with the default \<^verbatim>\<open>None\<close> for it (as pydantic 1 does).
\<close>

definition strict_lib :: lib where
  "strict_lib =
     \<lparr>loads = py_loads, dumps = py_dumps, date_required = True,
      lax_str = (\<lambda>v. None), lax_dict = (\<lambda>v. None),
      validation_text = (\<lambda>ks. ''validation errors for Player: '' @ join '', '' ks),
      pad_year = True\<rparr>"

definition default_lib :: lib where
  "default_lib = strict_lib\<lparr>date_required := False\<rparr>"


section \<open>Sequences of requests\<close>

text \<open>Successive Save requests under one identity, each with its clock and its body.\<close>

fun save_all :: "lib \<Rightarrow> string \<Rightarrow> (pydate \<times> (exn + json)) list \<Rightarrow> state \<Rightarrow> state" where
  "save_all L player_id [] s = s"
| "save_all L player_id ((now, req) # calls) s =
     save_all L player_id calls (snd (save_player L now player_id req s))"

text \<open>The stores that Save requests build from the empty tables of \<^verbatim>\<open>init_db()\<close>.\<close>

inductive reachable :: "lib \<Rightarrow> state \<Rightarrow> bool" for L :: lib where
  init: "reachable L init_db"
| save: "reachable L s \<Longrightarrow> reachable L (snd (save_player L now player_id req s))"


section \<open>Example requests\<close>

definition body_with :: "(string \<times> json) list \<Rightarrow> json" where
  "body_with extra =
     JObj ([(''name'', JStr ''Ada''), (''age'', JStr ''21''), (''TSI'', JStr ''1200''),
            (''salary'', JStr ''500''), (''specialties'', JStr ''Quick''),
            (''form'', JStr ''7''), (''fitness'', JStr ''8'')] @ extra)"

definition pace7 :: "(string \<times> json) list" where
  "pace7 = [(''pace'', JInt 7)]"

definition today :: pydate where
  "today = (2026, 11, 4)"


section \<open>Facts about the date conversions\<close>

lemma of_char_digit_char: "n < 10 \<Longrightarrow> of_char (digit_char n) = 48 + n"
  by (simp add: digit_char_def)

lemma digit_val_digit_char: "n < 10 \<Longrightarrow> digit_val (digit_char n) = Some n"
  by (simp add: digit_val_def less_eq_char_def of_char_digit_char)

lemma digit_val_SomeD: "digit_val c = Some n \<Longrightarrow> n < 10 \<and> c = digit_char n"
  by (auto simp: digit_val_def digit_char_def less_eq_char_def split: if_splits)

lemma digit_char_less: "a < 10 \<Longrightarrow> b < 10 \<Longrightarrow> digit_char a < digit_char b \<longleftrightarrow> a < b"
  by (simp add: less_char_def of_char_digit_char)

lemma digit_char_eq:
  assumes "a < 10" "b < 10"
  shows "digit_char a = digit_char b \<longleftrightarrow> a = b"
proof
  assume "digit_char a = digit_char b"
  then have "(of_char (digit_char a) :: nat) = of_char (digit_char b)" by (rule arg_cong)
  then show "a = b" using assms by (simp add: of_char_digit_char)
next
  assume "a = b" then show "digit_char a = digit_char b" by simp
qed

lemma digit_char_not_sep:
  "n < 10 \<Longrightarrow> digit_char n \<noteq> CHR ''-''" "n < 10 \<Longrightarrow> digit_char n \<noteq> CHR ''/''"
  "n < 10 \<Longrightarrow> digit_char n \<noteq> CHR '' ''"
  using of_char_digit_char [of n] by auto

lemma split_sep_append:
  "c \<notin> set a \<Longrightarrow> split_sep c (a @ c # b) = Some (a, b)"
  by (induction a) auto

lemma split_sep_SomeD:
  "split_sep c s = Some (a, b) \<Longrightarrow> s = a @ c # b \<and> c \<notin> set a"
  by (induction s arbitrary: a) (auto split: if_splits)

lemma pad2_decomp: "y < 10 \<Longrightarrow> pad2 (10 * x + y) = [digit_char x, digit_char y]"
  by (simp add: pad2_def)

lemma re_d_pad2:
  assumes "1 \<le> n" "n \<le> 31" shows "re_d (pad2 n) = Some n"
proof -
  define x y where "x = n div 10" and "y = n mod 10"
  have n: "n = 10 * x + y" and y: "y < 10" by (simp_all add: x_def y_def)
  have x: "x < 10" using assms n by linarith
  have c: "(x = 3 \<and> y \<le> 1) \<or> (1 \<le> x \<and> x \<le> 2) \<or> (x = 0 \<and> 1 \<le> y)"
    using assms n y by linarith
  have "re_d [digit_char x, digit_char y] = Some (10 * x + y)"
    using c by (simp add: re_d_def digit_val_digit_char x y)
  then show ?thesis using pad2_decomp [OF y, of x] n by simp
qed

lemma re_m_pad2:
  assumes "1 \<le> n" "n \<le> 12" shows "re_m (pad2 n) = Some n"
proof -
  define x y where "x = n div 10" and "y = n mod 10"
  have n: "n = 10 * x + y" and y: "y < 10" by (simp_all add: x_def y_def)
  have x: "x < 10" using assms n by linarith
  have c: "(x = 1 \<and> y \<le> 2) \<or> (x = 0 \<and> 1 \<le> y)"
    using assms n y by linarith
  have "re_m [digit_char x, digit_char y] = Some (10 * x + y)"
    using c by (simp add: re_m_def digit_val_digit_char x y)
  then show ?thesis using pad2_decomp [OF y, of x] n by simp
qed

lemma four_digits:
  "1000 * (n div 1000) + 100 * (n div 100 mod 10) + 10 * (n div 10 mod 10) + n mod 10 = (n::nat)"
proof -
  have q2: "n div 10 div 10 = n div 100" and q3: "n div 100 div 10 = n div 1000"
    by (simp_all add: div_mult2_eq [symmetric])
  have a: "n = 10 * (n div 10) + n mod 10" by simp
  have "n div 10 = 10 * (n div 10 div 10) + n div 10 mod 10" by simp
  then have b: "n div 10 = 10 * (n div 100) + n div 10 mod 10" by (simp only: q2)
  have "n div 100 = 10 * (n div 100 div 10) + n div 100 mod 10" by simp
  then have c: "n div 100 = 10 * (n div 1000) + n div 100 mod 10" by (simp only: q3)
  show ?thesis using a b c by linarith
qed

lemma re_Y_pad4: "n \<le> 9999 \<Longrightarrow> re_Y (pad4 n) = Some n"
  by (simp add: re_Y_def pad4_def digit_val_digit_char four_digits)

lemma sep_notin_pad2: "n < 100 \<Longrightarrow> CHR ''-'' \<notin> set (pad2 n) \<and> CHR ''/'' \<notin> set (pad2 n)"
proof -
  assume n: "n < 100"
  then have "n div 10 < 10" "n mod 10 < 10" by auto
  then show ?thesis
    by (metis digit_char_not_sep(1,2) pad2_def empty_iff empty_set set_ConsD)
qed

lemma sep_notin_pad4: "n \<le> 9999 \<Longrightarrow> CHR ''-'' \<notin> set (pad4 n) \<and> CHR ''/'' \<notin> set (pad4 n)"
proof -
  assume n: "n \<le> 9999"
  then have "n div 1000 < 10" "n div 100 mod 10 < 10" "n div 10 mod 10 < 10" "n mod 10 < 10"
    by auto
  then show ?thesis
    by (metis digit_char_not_sep(1,2) pad4_def empty_iff empty_set set_ConsD)
qed

lemma strptime_ymd_padded:
  assumes "y \<le> 9999" "1 \<le> m" "m \<le> 12" "1 \<le> d" "d \<le> 31"
  shows "strptime_ymd (pad4 y @ ''-'' @ pad2 m @ ''-'' @ pad2 d) = datetime_date y m d"
proof -
  have 1: "split_sep CHR ''-'' (pad4 y @ CHR ''-'' # pad2 m @ ''-'' @ pad2 d)
             = Some (pad4 y, pad2 m @ ''-'' @ pad2 d)"
    using assms by (intro split_sep_append) (simp add: sep_notin_pad4)
  have 2: "split_sep CHR ''-'' (pad2 m @ CHR ''-'' # pad2 d) = Some (pad2 m, pad2 d)"
    using assms by (intro split_sep_append) (simp add: sep_notin_pad2)
  show ?thesis
    using 1 2 assms by (simp add: strptime_ymd_def re_Y_pad4 re_m_pad2 re_d_pad2)
qed

lemma days_in_month_le: "days_in_month y m \<le> 31"
  by (simp add: days_in_month_def)

lemma datetime_date_SomeD:
  assumes "datetime_date y m d = Some x"
  shows "x = (y, m, d) \<and> 1 \<le> y \<and> y \<le> 9999 \<and> 1 \<le> m \<and> m \<le> 12 \<and> 1 \<le> d \<and> d \<le> 31"
proof -
  have c: "1 \<le> y \<and> y \<le> 9999 \<and> 1 \<le> m \<and> m \<le> 12 \<and> 1 \<le> d \<and> d \<le> days_in_month y m"
    using assms unfolding datetime_date_def by (meson option.distinct(1))
  then have "x = (y, m, d)" using assms unfolding datetime_date_def by simp
  moreover have "d \<le> 31" using c days_in_month_le [of y m] by linarith
  ultimately show ?thesis using c by blast
qed

lemma pad2_small: "n < 10 \<Longrightarrow> pad2 n = [digit_char 0, digit_char n]"
  by (simp add: pad2_def)

lemma length_pad2: "length (pad2 n) = 2"
  by (simp add: pad2_def)

lemma length_pad4: "length (pad4 n) = 4"
  by (simp add: pad4_def)

lemma re_d_SomeD:
  assumes "re_d t = Some d"
  shows "(length t = 1 \<or> length t = 2) \<and> (pad2 d = t \<longleftrightarrow> length t = 2 \<and> hd t \<noteq> CHR '' '')"
proof -
  consider (one) a where "t = [a]" | (two) a b where "t = [a, b]"
    using assms by (auto simp: re_d_def split: list.splits)
  then show ?thesis
  proof cases
    case one
    then show ?thesis using length_pad2 [of d] by auto
  next
    case two
    from assms two obtain y where y: "digit_val b = Some y"
      by (auto simp: re_d_def split: option.splits)
    then have yb: "y < 10" "b = digit_char y" using digit_val_SomeD by blast+
    show ?thesis
    proof (cases "digit_val a")
      case None
      with assms two y have "a = CHR '' ''" "d = y"
        by (auto simp: re_d_def split: if_splits)
      then show ?thesis
        using two yb pad2_small [of y] digit_char_not_sep(3) [of 0] by auto
    next
      case (Some x)
      then have xa: "x < 10" "a = digit_char x" using digit_val_SomeD by blast+
      from assms two y Some have "d = 10 * x + y"
        by (auto simp: re_d_def split: if_splits)
      then show ?thesis
        using two xa yb pad2_decomp [of y x] digit_char_not_sep(3) [of x] by auto
    qed
  qed
qed

lemma re_m_SomeD:
  assumes "re_m t = Some m"
  shows "(length t = 1 \<or> length t = 2) \<and> (pad2 m = t \<longleftrightarrow> length t = 2)"
proof -
  consider (one) a where "t = [a]" | (two) a b where "t = [a, b]"
    using assms by (auto simp: re_m_def split: list.splits)
  then show ?thesis
  proof cases
    case one
    then show ?thesis using length_pad2 [of m] by auto
  next
    case two
    from assms two obtain x y where xy: "digit_val a = Some x" "digit_val b = Some y"
      and m: "m = 10 * x + y"
      by (auto simp: re_m_def split: option.splits if_splits)
    then have "y < 10" "b = digit_char y" "a = digit_char x" using digit_val_SomeD by blast+
    then show ?thesis using two m pad2_decomp [of y x] by auto
  qed
qed

lemma div_mod_10:
  fixes k r :: nat
  assumes "r < 10"
  shows "(10 * k + r) div 10 = k" "(10 * k + r) mod 10 = r"
  using assms by simp_all

lemma pad4_decomp:
  assumes "w < 10" "x < 10" "y < 10" "z < 10"
  shows "pad4 (1000 * w + 100 * x + 10 * y + z)
           = [digit_char w, digit_char x, digit_char y, digit_char z]"
proof -
  define k2 where "k2 = 10 * w + x"
  define k3 where "k3 = 10 * k2 + y"
  define n where "n = 10 * k3 + z"
  have n: "1000 * w + 100 * x + 10 * y + z = n" by (simp add: n_def k3_def k2_def)
  have d1: "n div 10 = k3" and m1: "n mod 10 = z"
    unfolding n_def using div_mod_10 [OF assms(4)] by blast+
  have "n div 100 = n div 10 div 10" by (simp add: div_mult2_eq [symmetric])
  then have d2: "n div 100 = k2" and m2: "n div 10 mod 10 = y"
    unfolding d1 k3_def using div_mod_10 [OF assms(3)] by auto
  have "n div 1000 = n div 100 div 10" by (simp add: div_mult2_eq [symmetric])
  then have d3: "n div 1000 = w" and m3: "n div 100 mod 10 = x"
    unfolding d2 k2_def using div_mod_10 [OF assms(2)] by auto
  show ?thesis unfolding n pad4_def d3 m3 m2 m1 ..
qed

lemma re_Y_SomeD:
  assumes "re_Y t = Some y"
  shows "pad4 y = t \<and> length t = 4"
proof -
  from assms obtain a b c d where t: "t = [a, b, c, d]"
    by (auto simp: re_Y_def split: list.splits)
  with assms obtain w x u z where
    v: "digit_val a = Some w" "digit_val b = Some x" "digit_val c = Some u" "digit_val d = Some z"
    and y: "y = 1000 * w + 100 * x + 10 * u + z"
    by (auto simp: re_Y_def split: option.splits)
  from v have "w < 10" "x < 10" "u < 10" "z < 10"
    "a = digit_char w" "b = digit_char x" "c = digit_char u" "d = digit_char z"
    using digit_val_SomeD by blast+
  then show ?thesis using t y pad4_decomp [of w x u z] by simp
qed

lemma fmt_Y_pad4: "pad_year L \<or> 1000 \<le> y \<Longrightarrow> fmt_Y L y = pad4 y"
  by (auto simp: fmt_Y_def dec_def)

lemma sep_eq:
  fixes c :: char
  assumes "c \<notin> set a" "c \<notin> set a'"
  shows "a @ c # b = a' @ c # b' \<longleftrightarrow> a = a' \<and> b = b'"
proof
  assume "a @ c # b = a' @ c # b'"
  then have "split_sep c (a @ c # b) = split_sep c (a' @ c # b')" by simp
  then show "a = a' \<and> b = b'" using assms by (simp add: split_sep_append)
qed simp

lemma strptime_dmy_SomeD:
  assumes "strptime_dmy t = Some x"
  obtains dd mm yy y m d where
    "t = dd @ CHR ''/'' # mm @ CHR ''/'' # yy" "re_d dd = Some d" "re_m mm = Some m"
    "re_Y yy = Some y" "datetime_date y m d = Some x"
    "CHR ''/'' \<notin> set dd" "CHR ''/'' \<notin> set mm"
proof -
  from assms obtain dd r where 1: "split_sep CHR ''/'' t = Some (dd, r)"
    by (auto simp: strptime_dmy_def split: option.splits)
  with assms obtain mm yy where 2: "split_sep CHR ''/'' r = Some (mm, yy)"
    by (auto simp: strptime_dmy_def split: option.splits)
  from assms 1 2 obtain d m y where
    3: "re_d dd = Some d" "re_m mm = Some m" "re_Y yy = Some y" "datetime_date y m d = Some x"
    by (auto simp: strptime_dmy_def split: option.splits)
  from 1 2 have "t = dd @ CHR ''/'' # mm @ CHR ''/'' # yy"
    "CHR ''/'' \<notin> set dd" "CHR ''/'' \<notin> set mm"
    using split_sep_SomeD by blast+
  with 3 that show ?thesis by blast
qed

lemma strptime_dmy_valid:
  assumes "strptime_dmy t = Some x"
  shows "datetime_date (fst x) (fst (snd x)) (snd (snd x)) = Some x"
proof -
  from assms obtain y m d where "datetime_date y m d = Some x"
    by (rule strptime_dmy_SomeD)
  then show ?thesis using datetime_date_SomeD by fastforce
qed

lemma iso_roundtrip:
  assumes "datetime_date y m d = Some x" "pad_year L \<or> 1000 \<le> y"
  shows "strptime_ymd (strftime_ymd L x) = Some x"
proof -
  from assms(1) have x: "x = (y, m, d)" and r: "y \<le> 9999" "1 \<le> m" "m \<le> 12" "1 \<le> d" "d \<le> 31"
    using datetime_date_SomeD by blast+
  show ?thesis
    unfolding x strftime_ymd.simps fmt_Y_pad4 [OF assms(2)]
    using strptime_ymd_padded [OF r] assms(1) x by simp
qed

lemma dmy_render:
  assumes "strptime_dmy t = Some x" "pad_year L \<or> 1000 \<le> fst x"
  shows "strftime_dmy L x = t \<longleftrightarrow> length t = 10 \<and> hd t \<noteq> CHR '' ''"
proof -
  from assms(1) obtain dd mm yy y m d where
    t: "t = dd @ CHR ''/'' # mm @ CHR ''/'' # yy" and f: "re_d dd = Some d" "re_m mm = Some m"
    "re_Y yy = Some y" and v: "datetime_date y m d = Some x"
    and s: "CHR ''/'' \<notin> set dd" "CHR ''/'' \<notin> set mm"
    by (rule strptime_dmy_SomeD)
  from v have x: "x = (y, m, d)" and r: "m \<le> 12" "d \<le> 31"
    using datetime_date_SomeD by blast+
  have Y: "fmt_Y L y = yy" "length yy = 4"
    using re_Y_SomeD [OF f(3)] fmt_Y_pad4 [of L y] assms(2) x by auto
  have D: "length dd = 1 \<or> length dd = 2" "pad2 d = dd \<longleftrightarrow> length dd = 2 \<and> hd dd \<noteq> CHR '' ''"
    using re_d_SomeD [OF f(1)] by blast+
  have M: "length mm = 1 \<or> length mm = 2" "pad2 m = mm \<longleftrightarrow> length mm = 2"
    using re_m_SomeD [OF f(2)] by blast+
  have hd: "hd t = hd dd" using D(1) t by (cases dd) auto
  have p: "CHR ''/'' \<notin> set (pad2 d)" "CHR ''/'' \<notin> set (pad2 m)"
    using r sep_notin_pad2 [of d] sep_notin_pad2 [of m] by auto
  have "strftime_dmy L x = pad2 d @ CHR ''/'' # pad2 m @ CHR ''/'' # yy"
    unfolding x strftime_dmy.simps Y(1) by simp
  then have "strftime_dmy L x = t \<longleftrightarrow> pad2 d = dd \<and> pad2 m = mm"
    unfolding t using sep_eq [OF p(1) s(1)] sep_eq [OF p(2) s(2)] by simp
  also have "\<dots> \<longleftrightarrow> length t = 10 \<and> hd t \<noteq> CHR '' ''"
    using D M Y(2) unfolding hd by (auto simp: t)
  finally show ?thesis .
qed

section \<open>Save\<close>

lemma save_player_error:
  "prepare L req = Inl resp \<Longrightarrow> save_player L now player_id req s = (resp, s)"
  by (simp add: save_player_def)

lemma save_player_ok:
  "prepare L req = Inr p \<Longrightarrow>
   save_player L now player_id req s =
     (Message (saved_message (name p)),
      s\<lparr>players := upsert \<lparr>p_id = player_id, p_name = name p,
                            p_specialties = specialties p\<rparr> (players s),
        player_stats := player_stats s
           @ [stats_of L player_id p (iso_date_of L now (date p))]\<rparr>)"
  by (simp add: save_player_def Let_def connect_def close_def)

lemma prepare_skills_text:
  "map_of d ''skills'' = Some (JStr text) \<Longrightarrow> loads L text = Inl (JSONDecodeError detail) \<Longrightarrow>
   prepare L (Inr (JObj d)) = Inl (Error (''Invalid JSON in skills: '' @ detail))"
  by (simp add: prepare_def)

lemma loads_not_valid_json:
  "loads strict_lib ''{not valid json'' = Inl (JSONDecodeError ''Expecting value'')"
  unfolding strict_lib_def by simp code_simp

text \<open>
  C5. A Save whose \<^verbatim>\<open>skills\<close> is a string that \<^verbatim>\<open>json.loads\<close> rejects with
  \<^verbatim>\<open>JSONDecodeError\<close> returns the error object with the text of that exception, and
  the store is as before: neither table is touched.
\<close>

theorem save_invalid_skills_json:
  assumes "map_of d ''skills'' = Some (JStr text)"
    and "loads L text = Inl (JSONDecodeError detail)"
  shows "save_player L now player_id (Inr (JObj d)) s
           = (Error (''Invalid JSON in skills: '' @ detail), s)"
  using assms by (simp add: save_player_error prepare_skills_text)

theorem save_invalid_skills_json_witness:
  "map_of [(''name'', JStr ''Ada''), (''skills'', JStr ''{not valid json'')] ''skills''
     = Some (JStr ''{not valid json'')
   \<and> loads strict_lib ''{not valid json'' = Inl (JSONDecodeError ''Expecting value'')
   \<and> save_player strict_lib today ''42''
        (Inr (JObj [(''name'', JStr ''Ada''), (''skills'', JStr ''{not valid json'')])) init_db
       = (Error ''Invalid JSON in skills: Expecting value'', init_db)"
proof -
  have h: "map_of [(''name'', JStr ''Ada''), (''skills'', JStr ''{not valid json'')] ''skills''
             = Some (JStr ''{not valid json'')"
    by simp
  from save_invalid_skills_json [OF h loads_not_valid_json, of today "''42''" init_db]
  show ?thesis using h loads_not_valid_json by simp
qed

text \<open>
  C6. A Save that passes the validation and whose date string \<^verbatim>\<open>strptime\<close> rejects
  (as it does \<^verbatim>\<open>31/02/2024\<close>) returns the success message and appends a snapshot
  dated \<^verbatim>\<open>datetime.now().strftime("%Y-%m-%d")\<close>.
\<close>

theorem save_invalid_calendar_date:
  assumes "prepare L req = Inr p" and "date p = Some t" and "strptime_dmy t = None"
  shows "fst (save_player L now player_id req s) = Message (saved_message (name p))
       \<and> player_stats (snd (save_player L now player_id req s))
           = player_stats s @ [stats_of L player_id p (strftime_ymd L now)]
       \<and> s_date (stats_of L player_id p (strftime_ymd L now)) = strftime_ymd L now"
  using assms by (simp add: save_player_ok iso_date_of_def stats_of_def)

lemma feb_31: "strptime_dmy ''31/02/2024'' = None"
  by (simp add: strptime_dmy_def re_d_def re_m_def re_Y_def digit_val_def datetime_date_def
        days_in_month_def is_leap_def)

lemma prepare_example:
  "prepare strict_lib (Inr (body_with [(''skills'', JObj pace7), (''date'', JStr t)]))
     = Inr \<lparr>name = ''Ada'', age = ''21'', TSI = ''1200'', salary = ''500'',
            specialties = ''Quick'', form = ''7'', fitness = ''8'', skills = pace7,
            date = Some t\<rparr>"
  by (simp add: prepare_def body_with_def validate_def str_field_def dict_field_def
        opt_str_field_def)

lemma today_iso: "strftime_ymd strict_lib today = ''2026-11-04''"
  by code_simp

theorem save_invalid_calendar_date_witness:
  "strptime_dmy ''31/02/2024'' = None
   \<and> fst (save_player strict_lib today ''42''
            (Inr (body_with [(''skills'', JObj pace7), (''date'', JStr ''31/02/2024'')])) init_db)
       = Message (saved_message ''Ada'')
   \<and> map s_date (player_stats (snd (save_player strict_lib today ''42''
            (Inr (body_with [(''skills'', JObj pace7), (''date'', JStr ''31/02/2024'')])) init_db)))
       = [''2026-11-04'']"
  using save_invalid_calendar_date
          [OF prepare_example _ feb_31, where now = today and player_id = "''42''" and s = init_db]
  by (simp add: feb_31 today_iso init_db_def stats_of_def)

section \<open>Connections\<close>

lemma not_a_date: "strptime_dmy ''not-a-date'' = None"
  by (simp add: strptime_dmy_def)

lemma conns_save_player: "open_conns (snd (save_player L now player_id req s)) = open_conns s"
  by (simp add: save_player_def connect_def close_def Let_def split: sum.splits)

lemma conns_get_all_players:
  "open_conns (snd (get_all_players L player_id dt s)) =
     (case fst (get_all_players L player_id dt s) of
        Inr (Rows rs) \<Rightarrow> open_conns s
      | _ \<Rightarrow> Suc (open_conns s))"
  by (simp add: get_all_players_def connect_def close_def Let_def
           split: sum.splits option.splits)

text \<open>
  C1. Save leaves no connection open (\<open>conns_save_player\<close>), but List does not close
  the connection on every path: the call with \<^verbatim>\<open>date="not-a-date"\<close> returns the error
  object from inside the \<^verbatim>\<open>except\<close> branch, before \<^verbatim>\<open>conn.close()\<close>, and one more
  connection is open after it than before.
\<close>

theorem list_malformed_date_leaks_connection:
  "fst (get_all_players L player_id (Some ''not-a-date'') s)
     = Inr (ListError ''Invalid date format. Use DD/MM/YYYY.'')
   \<and> open_conns (snd (get_all_players L player_id (Some ''not-a-date'') s))
       = Suc (open_conns s)"
  by (simp add: get_all_players_def date_filter_def not_a_date connect_def)


section \<open>Empty query parameters\<close>

lemma id_filter_empty: "id_filter (Some []) = id_filter None"
  by (simp add: id_filter_def)

lemma date_filter_empty: "date_filter L (Some []) = date_filter L None"
  by (simp add: date_filter_def)

lemma date_filter_None: "date_filter L None = Some []"
  by (simp add: date_filter_def)

text \<open>
  C9. A List call with \<^verbatim>\<open>player_id=""\<close> is the call without \<open>player_id\<close>, a call with
  \<^verbatim>\<open>date=""\<close> is the call without \<open>date\<close>, and the empty date never gives the error
  object.
\<close>

theorem empty_parameters_are_absent:
  "get_all_players L (Some []) dt s = get_all_players L None dt s
   \<and> get_all_players L player_id (Some []) s = get_all_players L player_id None s
   \<and> fst (get_all_players L player_id (Some []) s) \<noteq> Inr (ListError msg)"
proof -
  have a: "get_all_players L (Some []) dt s = get_all_players L None dt s"
    unfolding get_all_players_def id_filter_empty ..
  have b: "get_all_players L player_id (Some []) s = get_all_players L player_id None s"
    unfolding get_all_players_def date_filter_empty ..
  have c: "fst (get_all_players L player_id (Some []) s) \<noteq> Inr (ListError msg)"
    by (simp add: get_all_players_def date_filter_empty date_filter_None Let_def
             split: sum.splits)
  from a b c show ?thesis by blast
qed

section \<open>The date filter of List\<close>

text \<open>
  C8. A List call whose date parameter is not empty and is rejected by
  \<^verbatim>\<open>strptime(date, "%d/%m/%Y")\<close> returns the error object that names the expected
  format, and no rows; it reads nothing and leaves both tables as they were.
\<close>

theorem list_malformed_date:
  assumes "t \<noteq> []" and "strptime_dmy t = None"
  shows "fst (get_all_players L player_id (Some t) s)
           = Inr (ListError ''Invalid date format. Use DD/MM/YYYY.'')
       \<and> players (snd (get_all_players L player_id (Some t) s)) = players s
       \<and> player_stats (snd (get_all_players L player_id (Some t) s)) = player_stats s"
  using assms by (simp add: get_all_players_def date_filter_def connect_def)

theorem list_malformed_date_witness:
  "''not-a-date'' \<noteq> [] \<and> strptime_dmy ''not-a-date'' = None
   \<and> fst (get_all_players strict_lib None (Some ''not-a-date'') init_db)
       = Inr (ListError ''Invalid date format. Use DD/MM/YYYY.'')"
  using list_malformed_date [OF _ not_a_date, of strict_lib None init_db] not_a_date by simp

end
